theory Spec2Isabelle
  imports Complex_Main "HOL-Library.Char_ord" "HOL-Library.List_Lexorder" "HOL-Library.Sublist"
begin

section \<open>Python values and exceptions\<close>

text \<open>
  The exceptions the modelled code can raise. \<open>KeyError\<close> carries the missing key.
  \<open>NoFilename\<close> is the plain \<open>Exception\<close> raised by \<open>load_data\<close> when no file name
  is known.
\<close>

datatype error =
    KeyError string
  | ValueError
  | TypeError
  | IndexError
  | AttributeError
  | UnsupportedFeature
  | NoFilename

text \<open>
  Sequencing of statements that may raise: the first exception is the result.
\<close>

definition bind :: "error + 'a \<Rightarrow> ('a \<Rightarrow> error + 'b) \<Rightarrow> error + 'b" where
  "bind m k = (case m of Inl e \<Rightarrow> Inl e | Inr x \<Rightarrow> k x)"

text \<open>
  A Python \<open>float\<close> object, as far as the program observes it: its numeric value
  (finite floats only; comparison of finite doubles is exact, so \<open>real\<close> comparison is
  the float comparison) and the text that \<open>str()\<close> returns for it.
\<close>

datatype pyfloat = PyFloat (num: real) (str_float: string)

text \<open>
  The values that reach a comparison in \<open>Filter.apply\<close>: the float attributes
  \<open>diameter_min_km\<close> and \<open>miss_distance_kilometers\<close>, and strings (the hazard flag
  as read from the CSV file, and the filter value split off a \<open>field:op:value\<close> token).
\<close>

datatype pyval = PFloat pyfloat | PStr string

fun py_str :: "pyval \<Rightarrow> string" where
  "py_str (PFloat f) = str_float f"
| "py_str (PStr s) = s"

text \<open>
  \<open>operator.eq\<close>, \<open>operator.gt\<close>, \<open>operator.ge\<close>. Equality between a float and a
  string is \<open>False\<close>; an ordering between them raises \<open>TypeError\<close>. Strings are ordered
  lexicographically by character code.
\<close>

fun operator_eq :: "pyval \<Rightarrow> pyval \<Rightarrow> error + bool" where
  "operator_eq (PFloat a) (PFloat b) = Inr (num a = num b)"
| "operator_eq (PStr s) (PStr t) = Inr (s = t)"
| "operator_eq _ _ = Inr False"

fun operator_gt :: "pyval \<Rightarrow> pyval \<Rightarrow> error + bool" where
  "operator_gt (PFloat a) (PFloat b) = Inr (num a > num b)"
| "operator_gt (PStr s) (PStr t) = Inr (s > t)"
| "operator_gt _ _ = Inl TypeError"

fun operator_ge :: "pyval \<Rightarrow> pyval \<Rightarrow> error + bool" where
  "operator_ge (PFloat a) (PFloat b) = Inr (num a \<ge> num b)"
| "operator_ge (PStr s) (PStr t) = Inr (s \<ge> t)"
| "operator_ge _ _ = Inl TypeError"

section \<open>models.py\<close>

text \<open>
  Neither class defines \<open>__eq__\<close> or \<open>__hash__\<close>, so Python compares and hashes the
  objects by identity. The field \<open>path_oid\<close> (\<open>neo_oid\<close>) is that identity; two objects
  are the same object iff they have the same identity, and then they have the same
  contents, so equality of the records below is identity of the objects.
\<close>

record OrbitPath =
  path_oid :: nat
  neo_name :: string
  miss_distance_kilometers :: pyfloat
  close_approach_date :: "string option"

record NearEarthObject =
  neo_oid :: nat
  orbits :: "OrbitPath list"
  neo_id :: string
  name :: string
  diameter_min_km :: pyfloat
  is_potentially_hazardous_asteroid :: string

text \<open>
  \<open>kwargs[key]\<close> on the keyword dictionary of a constructor; a CSV row maps column
  names to strings.
\<close>

definition kwargs_getitem :: "(string \<rightharpoonup> string) \<Rightarrow> string \<Rightarrow> error + string" where
  "kwargs_getitem kwargs k = (case kwargs k of None \<Rightarrow> Inl (KeyError k) | Some v \<Rightarrow> Inr v)"

text \<open>
  \<open>float(s)\<close> is the builtin; it is a parameter \<open>to_float\<close> of the constructors, with
  \<open>None\<close> for the strings on which it raises \<open>ValueError\<close>.
\<close>

definition float_of :: "(string \<Rightarrow> pyfloat option) \<Rightarrow> string \<Rightarrow> error + pyfloat" where
  "float_of to_float s = (case to_float s of None \<Rightarrow> Inl ValueError | Some f \<Rightarrow> Inr f)"

text \<open>\<open>NearEarthObject.__init__\<close>; \<open>oid\<close> is the identity of the new object.\<close>

definition NearEarthObject_init ::
  "(string \<Rightarrow> pyfloat option) \<Rightarrow> nat \<Rightarrow> (string \<rightharpoonup> string) \<Rightarrow> error + NearEarthObject" where
  "NearEarthObject_init to_float oid kwargs =
     bind (kwargs_getitem kwargs ''id'') (\<lambda>i.
     bind (kwargs_getitem kwargs ''name'') (\<lambda>n.
     bind (kwargs_getitem kwargs ''estimated_diameter_min_kilometers'') (\<lambda>ds.
     bind (float_of to_float ds) (\<lambda>d.
     bind (kwargs_getitem kwargs ''is_potentially_hazardous_asteroid'') (\<lambda>h.
     Inr \<lparr>neo_oid = oid, orbits = [], neo_id = i, name = n, diameter_min_km = d,
          is_potentially_hazardous_asteroid = h\<rparr>)))))"

text \<open>\<open>NearEarthObject.update_orbits\<close>\<close>

definition update_orbits :: "NearEarthObject \<Rightarrow> OrbitPath \<Rightarrow> NearEarthObject" where
  "update_orbits neo orbit = neo\<lparr>orbits := orbits neo @ [orbit]\<rparr>"

text \<open>\<open>OrbitPath.__init__\<close>\<close>

definition OrbitPath_init ::
  "(string \<Rightarrow> pyfloat option) \<Rightarrow> nat \<Rightarrow> (string \<rightharpoonup> string) \<Rightarrow> error + OrbitPath" where
  "OrbitPath_init to_float oid kwargs =
     bind (kwargs_getitem kwargs ''name'') (\<lambda>n.
     bind (kwargs_getitem kwargs ''miss_distance_kilometers'') (\<lambda>ms.
     bind (float_of to_float ms) (\<lambda>m.
     Inr \<lparr>path_oid = oid, neo_name = n, miss_distance_kilometers = m,
          close_approach_date = kwargs ''close_approach_date''\<rparr>)))"

text \<open>
  \<open>getattr(obj, attr)\<close> for the attribute names in the range of \<open>Filter.Options\<close>;
  an attribute the object does not have raises \<open>AttributeError\<close>.
\<close>

definition getattr_neo :: "NearEarthObject \<Rightarrow> string \<Rightarrow> error + pyval" where
  "getattr_neo neo attr =
     (if attr = ''diameter_min_km'' then Inr (PFloat (diameter_min_km neo))
      else if attr = ''is_potentially_hazardous_asteroid''
        then Inr (PStr (is_potentially_hazardous_asteroid neo))
      else Inl AttributeError)"

definition getattr_path :: "OrbitPath \<Rightarrow> string \<Rightarrow> error + pyval" where
  "getattr_path path attr =
     (if attr = ''miss_distance_kilometers'' then Inr (PFloat (miss_distance_kilometers path))
      else Inl AttributeError)"

section \<open>search.py: Filter\<close>

record Filter =
  field :: string
  object :: string
  operation :: string
  fvalue :: pyval

text \<open>\<open>Filter.Options.get\<close> and \<open>Filter.Operators.get\<close>: \<open>None\<close> for an unknown key.\<close>

definition Options_get :: "string \<Rightarrow> string option" where
  "Options_get k =
     (if k = ''diameter'' then Some ''diameter_min_km''
      else if k = ''distance'' then Some ''miss_distance_kilometers''
      else if k = ''is_hazardous'' then Some ''is_potentially_hazardous_asteroid''
      else None)"

definition Operators_get :: "string \<Rightarrow> (pyval \<Rightarrow> pyval \<Rightarrow> error + bool) option" where
  "Operators_get k =
     (if k = ''='' then Some operator_eq
      else if k = ''>'' then Some operator_gt
      else if k = ''>='' then Some operator_ge
      else None)"

text \<open>
  The body of the loop of \<open>Filter.apply\<close> for one element: whether the element is
  appended. \<open>getattr(obj, None)\<close> raises \<open>TypeError\<close> outside the \<open>try\<close>. Inside it, an
  exception of the first comparison is caught and the comparison is repeated on
  \<open>str(value)\<close> and \<open>str(self.value)\<close>; calling the missing operator \<open>None\<close> raises
  \<open>TypeError\<close> in the \<open>try\<close> and again in the handler.
\<close>

definition Filter_test :: "('a \<Rightarrow> string \<Rightarrow> error + pyval) \<Rightarrow> Filter \<Rightarrow> 'a \<Rightarrow> error + bool" where
  "Filter_test getattr f x =
     (case Options_get (field f) of
        None \<Rightarrow> Inl TypeError
      | Some fld \<Rightarrow>
          bind (getattr x fld) (\<lambda>v.
            (case Operators_get (operation f) of
               None \<Rightarrow> Inl TypeError
             | Some opr \<Rightarrow>
                 (case opr v (fvalue f) of
                    Inr b \<Rightarrow> Inr b
                  | Inl _ \<Rightarrow> opr (PStr (py_str v)) (PStr (py_str (fvalue f)))))))"

text \<open>\<open>Filter.apply\<close>: the elements that pass, in input order; the first exception aborts.\<close>

fun Filter_apply :: "('a \<Rightarrow> string \<Rightarrow> error + pyval) \<Rightarrow> Filter \<Rightarrow> 'a list \<Rightarrow> error + 'a list" where
  "Filter_apply getattr f [] = Inr []"
| "Filter_apply getattr f (x # xs) =
     bind (Filter_test getattr f x) (\<lambda>b.
     bind (Filter_apply getattr f xs) (\<lambda>ys.
     Inr (if b then x # ys else ys)))"

section \<open>database.py\<close>

text \<open>
  A Python \<open>dict\<close> is an association list in insertion order with distinct keys;
  \<open>items()\<close> is the list itself and \<open>get\<close> is \<open>map_of\<close>.
\<close>

type_synonym ('k, 'v) dict = "('k \<times> 'v) list"

definition dict_setitem :: "('k, 'v) dict \<Rightarrow> 'k \<Rightarrow> 'v \<Rightarrow> ('k, 'v) dict" where
  "dict_setitem d k v =
     (if k \<in> fst ` set d then map (\<lambda>(k', v'). if k' = k then (k', v) else (k', v')) d
      else d @ [(k, v)])"

definition dict_getitem :: "(string, 'v) dict \<Rightarrow> string \<Rightarrow> error + 'v" where
  "dict_getitem d k = (case map_of d k of None \<Rightarrow> Inl (KeyError k) | Some v \<Rightarrow> Inr v)"

text \<open>
  \<open>d[['name']]\<close>: the subscript is a list, which is unhashable, so the lookup raises
  \<open>TypeError\<close> whatever the dictionary holds.
\<close>

definition dict_getitem_list :: "(string, 'v) dict \<Rightarrow> string list \<Rightarrow> error + 'v" where
  "dict_getitem_list d ks = Inl TypeError"

text \<open>
  \<open>NEODatabase\<close>: the file name and the two dictionaries. \<open>db_next_oid\<close> numbers the
  objects created so far; it stands for the identities Python gives to new objects.
\<close>

record NEODatabase =
  filename :: "string option"
  db_neo_name :: "(string, NearEarthObject) dict"
  db_neo_date :: "(string, NearEarthObject list) dict"
  db_next_oid :: nat

definition NEODatabase_init :: "string option \<Rightarrow> NEODatabase" where
  "NEODatabase_init fname = \<lparr>filename = fname, db_neo_name = [], db_neo_date = [], db_next_oid = 0\<rparr>"

text \<open>
  \<open>update_orbits\<close> mutates an object that both dictionaries refer to: every reference
  to the object (same identity) sees the new orbit list.
\<close>

definition store_neo :: "NearEarthObject \<Rightarrow> NEODatabase \<Rightarrow> NEODatabase" where
  "store_neo neo db =
     (let upd = (\<lambda>n. if neo_oid n = neo_oid neo then neo else n)
      in db\<lparr>db_neo_name := map (\<lambda>(k, n). (k, upd n)) (db_neo_name db),
            db_neo_date := map (\<lambda>(k, ns). (k, map upd ns)) (db_neo_date db)\<rparr>)"

text \<open>
  The body of the loop of \<open>load_data\<close> for one row. An object is truthy, so
  \<open>not self.neo_name[['name']]\<close> is \<open>False\<close> whenever the lookup returns; an empty list is
  falsy.
\<close>

definition load_row ::
  "(string \<Rightarrow> pyfloat option) \<Rightarrow> NEODatabase \<Rightarrow> (string \<rightharpoonup> string) \<Rightarrow> error + NEODatabase" where
  "load_row to_float db row =
     bind (OrbitPath_init to_float (db_next_oid db) row) (\<lambda>orbit_path.
     let db = db\<lparr>db_next_oid := db_next_oid db + 1\<rparr> in
     bind (dict_getitem_list (db_neo_name db) [''name'']) (\<lambda>found :: NearEarthObject.
     bind (if \<not> True
           then bind (NearEarthObject_init to_float (db_next_oid db) row) (\<lambda>neo.
                bind (kwargs_getitem row ''name'') (\<lambda>n.
                Inr (db\<lparr>db_neo_name := dict_setitem (db_neo_name db) n neo,
                        db_next_oid := db_next_oid db + 1\<rparr>)))
           else Inr db) (\<lambda>db.
     bind (kwargs_getitem row ''name'') (\<lambda>n.
     bind (dict_getitem (db_neo_name db) n) (\<lambda>near_earth_object.
     let near_earth_object = update_orbits near_earth_object orbit_path;
         db = store_neo near_earth_object db in
     bind (kwargs_getitem row ''close_approach_date'') (\<lambda>d.
     bind (dict_getitem (db_neo_date db) d) (\<lambda>ns.
     let db = (if ns = [] then db\<lparr>db_neo_date := dict_setitem (db_neo_date db) d []\<rparr> else db) in
     bind (kwargs_getitem row ''close_approach_date'') (\<lambda>d.
     bind (dict_getitem (db_neo_date db) d) (\<lambda>ns.
     Inr (db\<lparr>db_neo_date := dict_setitem (db_neo_date db) d (ns @ [near_earth_object])\<rparr>))))))))))"

fun load_rows ::
  "(string \<Rightarrow> pyfloat option) \<Rightarrow> NEODatabase \<Rightarrow> (string \<rightharpoonup> string) list \<Rightarrow> error + NEODatabase" where
  "load_rows to_float db [] = Inr db"
| "load_rows to_float db (row # data) =
     bind (load_row to_float db row) (\<lambda>db'. load_rows to_float db' data)"

text \<open>
  \<open>NEODatabase.load_data\<close>. The file system is the parameter \<open>read_csv\<close>: the rows that
  \<open>csv.DictReader\<close> yields for a file name. \<open>None\<close> and the empty string are falsy.
\<close>

definition truthy_str :: "string option \<Rightarrow> bool" where
  "truthy_str s = (case s of None \<Rightarrow> False | Some t \<Rightarrow> t \<noteq> [])"

definition load_data ::
  "(string \<Rightarrow> pyfloat option) \<Rightarrow> (string \<Rightarrow> error + (string \<rightharpoonup> string) list) \<Rightarrow>
   NEODatabase \<Rightarrow> string option \<Rightarrow> error + NEODatabase" where
  "load_data to_float read_csv db fname =
     (if \<not> (truthy_str fname \<or> truthy_str (filename db)) then Inl NoFilename
      else bind (read_csv (the (if truthy_str fname then fname else filename db))) (\<lambda>data.
           load_rows to_float db data))"

section \<open>search.py: Query\<close>

text \<open>
  \<open>query.date_search.values\<close> (the field \<open>dvalues\<close>) is the date string in \<open>equals\<close>
  mode and the list \<open>[start_date, end_date]\<close> in \<open>between\<close> mode; either date may be
  \<open>None\<close>.
\<close>

datatype date_values = DateStr string | DateList "string option list"

record DateSearch =
  type :: string
  dvalues :: date_values

datatype py_class = NearEarthObject_class | OrbitPath_class

record Selectors =
  date_search :: DateSearch
  number :: int
  filters :: "Filter list"
  return_object :: "py_class option"

text \<open>
  The attributes of a \<open>Query\<close> object; the prefix \<open>q_\<close> keeps them apart from the
  fields of \<open>Selectors\<close> and from local variables of the same name.
\<close>

record Query =
  q_date :: "string option"
  q_end_date :: "string option"
  q_start_date :: "string option"
  q_number :: int
  q_filter :: "string list option"
  q_return_object :: string

text \<open>\<open>Query.ReturnObjects.get\<close>\<close>

definition ReturnObjects_get :: "string \<Rightarrow> py_class option" where
  "ReturnObjects_get k =
     (if k = ''NEO'' then Some NearEarthObject_class
      else if k = ''Path'' then Some OrbitPath_class
      else None)"

text \<open>\<open>s.split(c)\<close>: never the empty list.\<close>

fun split :: "char \<Rightarrow> string \<Rightarrow> string list" where
  "split c [] = [[]]"
| "split c (x # xs) =
     (if x = c then [] # split c xs
      else (case split c xs of w # ws \<Rightarrow> (x # w) # ws | [] \<Rightarrow> [[x]]))"

text \<open>\<open>xs[i]\<close> with Python's negative indices and \<open>IndexError\<close>.\<close>

definition list_getitem :: "'a list \<Rightarrow> int \<Rightarrow> error + 'a" where
  "list_getitem xs i =
     (if 0 \<le> i \<and> i < int (length xs) then Inr (xs ! nat i)
      else if i < 0 \<and> - i \<le> int (length xs) then Inr (xs ! nat (int (length xs) + i))
      else Inl IndexError)"

text \<open>
  \<open>hasattr(obj, attr)\<close> for an instance of each class, where \<open>attr\<close> is a result of
  \<open>Filter.Options.get\<close>: among the names of that table and of the instance attributes
  set by \<open>__init__\<close>, the ones the instance has. \<open>hasattr(obj, None)\<close> raises
  \<open>TypeError\<close>.
\<close>

definition hasattr_neo :: "string option \<Rightarrow> error + bool" where
  "hasattr_neo attr =
     (case attr of None \<Rightarrow> Inl TypeError
      | Some a \<Rightarrow> Inr (a \<in> set [''orbits'', ''id'', ''name'', ''diameter_min_km'',
                                 ''is_potentially_hazardous_asteroid'', ''update_orbits'']))"

definition hasattr_path :: "string option \<Rightarrow> error + bool" where
  "hasattr_path attr =
     (case attr of None \<Rightarrow> Inl TypeError
      | Some a \<Rightarrow> Inr (a \<in> set [''neo_name'', ''miss_distance_kilometers'',
                                 ''close_approach_date'']))"

text \<open>\<open>d[k].append(x)\<close> on a \<open>defaultdict(list)\<close>\<close>

definition defaultdict_append :: "(string, 'a list) dict \<Rightarrow> string \<Rightarrow> 'a \<Rightarrow> (string, 'a list) dict" where
  "defaultdict_append d k x =
     (case map_of d k of None \<Rightarrow> d @ [(k, [x])] | Some xs \<Rightarrow> dict_setitem d k (xs @ [x]))"

text \<open>
  \<open>Filter.create_filter_options\<close>. The first argument of each \<open>hasattr\<close> is a
  constructor call without keyword arguments, evaluated before \<open>hasattr\<close> runs; the
  \<open>elif\<close> condition is evaluated only when the first condition is false.
\<close>

fun create_filter_options ::
  "(string \<Rightarrow> pyfloat option) \<Rightarrow> (string, string list) dict \<Rightarrow> string list \<Rightarrow>
   error + (string, string list) dict" where
  "create_filter_options to_float value_to_return [] = Inr value_to_return"
| "create_filter_options to_float value_to_return (filter_option # filter_options) =
     bind (list_getitem (split CHR '':'' filter_option) 0) (\<lambda>selectedfilter.
     bind (NearEarthObject_init to_float 0 Map.empty) (\<lambda>neo.
     bind (hasattr_neo (Options_get selectedfilter)) (\<lambda>is_neo.
     if is_neo
     then create_filter_options to_float
            (defaultdict_append value_to_return ''NearEarthObject'' filter_option) filter_options
     else
       bind (OrbitPath_init to_float 0 Map.empty) (\<lambda>path.
       bind (hasattr_path (Options_get selectedfilter)) (\<lambda>is_path.
       if is_path
       then create_filter_options to_float
              (defaultdict_append value_to_return ''OrbitPath'' filter_option) filter_options
       else create_filter_options to_float value_to_return filter_options)))))"

text \<open>The inner loop of \<open>build_query\<close>: one \<open>Filter\<close> per token of one class.\<close>

fun build_filters :: "string \<Rightarrow> string list \<Rightarrow> error + Filter list" where
  "build_filters key [] = Inr []"
| "build_filters key (selected_filter # val) =
     bind (list_getitem (split CHR '':'' selected_filter) 0) (\<lambda>option.
     bind (list_getitem (split CHR '':'' selected_filter) 1) (\<lambda>operation'.
     bind (list_getitem (split CHR '':'' selected_filter) (- 1)) (\<lambda>value'.
     bind (build_filters key val) (\<lambda>rest.
     Inr (\<lparr>field = option, object = key, operation = operation', fvalue = PStr value'\<rparr> # rest)))))"

text \<open>The outer loop of \<open>build_query\<close> over \<open>options.items()\<close>.\<close>

fun build_all_filters :: "(string, string list) dict \<Rightarrow> error + Filter list" where
  "build_all_filters [] = Inr []"
| "build_all_filters ((key, val) # items) =
     bind (build_filters key val) (\<lambda>fs.
     bind (build_all_filters items) (\<lambda>rest.
     Inr (fs @ rest)))"

text \<open>\<open>Query.build_query\<close>\<close>

definition build_query :: "(string \<Rightarrow> pyfloat option) \<Rightarrow> Query \<Rightarrow> error + Selectors" where
  "build_query to_float self =
     (let data_search =
            (if truthy_str (q_date self)
               then \<lparr>type = ''equals'', dvalues = DateStr (the (q_date self))\<rparr>
             else \<lparr>type = ''between'', dvalues = DateList [q_start_date self, q_end_date self]\<rparr>);
          return_to_object = ReturnObjects_get (q_return_object self)
      in bind (case q_filter self of
                 None \<Rightarrow> Inr []
               | Some fl \<Rightarrow>
                   if fl = [] then Inr []
                   else bind (create_filter_options to_float [] fl) build_all_filters) (\<lambda>filters'.
         Inr \<lparr>date_search = data_search, number = q_number self, filters = filters',
              return_object = return_to_object\<rparr>))"

section \<open>search.py: NEOSearcher\<close>

text \<open>
  \<open>NEOSearcher.__init__\<close> keeps the database and a copy of its date dictionary. The
  attribute \<open>date_search\<close> is written and read only inside \<open>get_objects\<close>; it is the
  local \<open>type (date_search query)\<close> below.
\<close>

record NEOSearcher =
  db :: NEODatabase
  neo_date :: "(string, NearEarthObject list) dict"

definition NEOSearcher_init :: "NEODatabase \<Rightarrow> NEOSearcher" where
  "NEOSearcher_init d = \<lparr>db = d, neo_date = db_neo_date d\<rparr>"

text \<open>An element of a result list: an entry, an event, or \<open>None\<close> (a failed \<open>dict.get\<close>).\<close>

datatype obj = Neo NearEarthObject | Path OrbitPath | PyNone

text \<open>\<open>return_date_search_equal\<close>: \<open>key == date\<close> is false when \<open>date\<close> is a list.\<close>

fun return_date_search_equal :: "(string, 'a list) dict \<Rightarrow> date_values \<Rightarrow> 'a list" where
  "return_date_search_equal [] date = []"
| "return_date_search_equal ((key, val) # items) date =
     (if DateStr key = date then val @ return_date_search_equal items date
      else return_date_search_equal items date)"

text \<open>
  \<open>key >= start_date and key <= end_date\<close>: comparing a string with \<open>None\<close> raises
  \<open>TypeError\<close>, and \<open>and\<close> does not evaluate its second operand when the first is false.
\<close>

definition date_between :: "string \<Rightarrow> string option \<Rightarrow> string option \<Rightarrow> error + bool" where
  "date_between key start_date end_date =
     (case start_date of
        None \<Rightarrow> Inl TypeError
      | Some s \<Rightarrow>
          if \<not> key \<ge> s then Inr False
          else (case end_date of None \<Rightarrow> Inl TypeError | Some e \<Rightarrow> Inr (key \<le> e)))"

text \<open>\<open>return_date_search_between\<close>\<close>

fun return_date_search_between ::
  "(string, 'a list) dict \<Rightarrow> string option \<Rightarrow> string option \<Rightarrow> error + 'a list" where
  "return_date_search_between [] start_date end_date = Inr []"
| "return_date_search_between ((key, val) # items) start_date end_date =
     bind (date_between key start_date end_date) (\<lambda>b.
     bind (return_date_search_between items start_date end_date) (\<lambda>rest.
     Inr (if b then val @ rest else rest)))"

text \<open>\<open>return_orbit_paths_from_neos\<close>\<close>

fun return_orbit_paths_from_neos :: "NearEarthObject list \<Rightarrow> OrbitPath list" where
  "return_orbit_paths_from_neos [] = []"
| "return_orbit_paths_from_neos (neo # neos) = orbits neo @ return_orbit_paths_from_neos neos"

text \<open>\<open>return_neo_from_orbit_path\<close>: \<open>dict.get\<close> gives \<open>None\<close> for a name that is not a key.\<close>

definition return_neo_from_orbit_path :: "NEOSearcher \<Rightarrow> OrbitPath list \<Rightarrow> obj list" where
  "return_neo_from_orbit_path self orbit_paths =
     map (\<lambda>path. case map_of (db_neo_name (db self)) (neo_name path) of
                    None \<Rightarrow> PyNone | Some n \<Rightarrow> Neo n) orbit_paths"

text \<open>
  \<open>date[i]\<close> on \<open>query.date_search.values\<close>: an element of the list, or the one-character
  string at that position of a date string.
\<close>

definition date_getitem :: "date_values \<Rightarrow> int \<Rightarrow> error + string option" where
  "date_getitem date i =
     (case date of
        DateList ds \<Rightarrow> list_getitem ds i
      | DateStr s \<Rightarrow> bind (list_getitem s i) (\<lambda>c. Inr (Some [c])))"

text \<open>Lines 186 to 191 of \<open>get_objects\<close>: the date selection.\<close>

definition date_selection :: "NEOSearcher \<Rightarrow> Selectors \<Rightarrow> error + NearEarthObject list" where
  "date_selection self query =
     (let date = dvalues (date_search query) in
      if type (date_search query) = ''equals''
        then Inr (return_date_search_equal (neo_date self) date)
      else if type (date_search query) = ''between''
        then bind (date_getitem date 0) (\<lambda>d0.
             bind (date_getitem date 1) (\<lambda>d1.
             return_date_search_between (neo_date self) d0 d1))
      else Inr [])"

text \<open>
  Lines 193 to 198: the loop over \<open>query.filters\<close>, with the loop variables
  \<open>distance_filter\<close> and \<open>neos\<close> as state.
\<close>

fun filter_loop ::
  "Filter list \<Rightarrow> Filter option \<Rightarrow> NearEarthObject list \<Rightarrow>
   error + (Filter option \<times> NearEarthObject list)" where
  "filter_loop [] distance_filter neos = Inr (distance_filter, neos)"
| "filter_loop (selectedfilter # fs) distance_filter neos =
     (if field selectedfilter = ''distance'' then filter_loop fs (Some selectedfilter) neos
      else bind (Filter_apply getattr_neo selectedfilter neos) (\<lambda>neos'.
           filter_loop fs distance_filter neos'))"

text \<open>\<open>xs[:n]\<close>: a negative \<open>n\<close> counts from the end.\<close>

definition slice_to :: "'a list \<Rightarrow> int \<Rightarrow> 'a list" where
  "slice_to xs n = (if 0 \<le> n then take (nat n) xs else take (nat (int (length xs) + n)) xs)"

text \<open>
  Lines 183 to 207 of \<open>get_objects\<close>: the pair \<open>(filtered_neos, filtered_orbits)\<close> as it
  stands before line 209, that is before deduplication.
\<close>

definition get_objects_filtered ::
  "NEOSearcher \<Rightarrow> Selectors \<Rightarrow> error + (obj list \<times> obj list)" where
  "get_objects_filtered self query =
     bind (date_selection self query) (\<lambda>neos.
     bind (filter_loop (filters query) None neos) (\<lambda>(distance_filter, neos).
     let orbits = return_orbit_paths_from_neos neos in
     (case distance_filter of
        None \<Rightarrow> Inr (map Neo neos, map Path orbits)
      | Some df \<Rightarrow>
          bind (Filter_apply getattr_path df orbits) (\<lambda>filtered_orbits.
          Inr (return_neo_from_orbit_path self filtered_orbits, map Path filtered_orbits)))))"

text \<open>
  Lines 183 to 210 of \<open>get_objects\<close>: the pair \<open>(filtered_neos, filtered_orbits)\<close> after
  deduplication. The order in which \<open>list(set(xs))\<close> lists the members of a set depends on
  the hashes of the objects, which are their addresses; it is the parameter \<open>list_set\<close>.
  A \<open>Filter\<close> object is truthy.
\<close>

definition get_objects_all ::
  "(obj list \<Rightarrow> obj list) \<Rightarrow> NEOSearcher \<Rightarrow> Selectors \<Rightarrow> error + (obj list \<times> obj list)" where
  "get_objects_all list_set self query =
     bind (date_selection self query) (\<lambda>neos.
     bind (filter_loop (filters query) None neos) (\<lambda>(distance_filter, neos).
     let orbits = return_orbit_paths_from_neos neos in
     bind (case distance_filter of
             None \<Rightarrow> Inr (map Neo neos, map Path orbits)
           | Some df \<Rightarrow>
               bind (Filter_apply getattr_path df orbits) (\<lambda>filtered_orbits.
               Inr (return_neo_from_orbit_path self filtered_orbits, map Path filtered_orbits)))
       (\<lambda>(filtered_neos, filtered_orbits).
     Inr (list_set filtered_neos, list_set filtered_orbits))))"

text \<open>\<open>NEOSearcher.get_objects\<close>: lines 212 to 214 select the shape and truncate.\<close>

definition get_objects ::
  "(obj list \<Rightarrow> obj list) \<Rightarrow> NEOSearcher \<Rightarrow> Selectors \<Rightarrow> error + obj list" where
  "get_objects list_set self query =
     bind (get_objects_all list_set self query) (\<lambda>(filtered_neos, filtered_orbits).
     if return_object query = Some OrbitPath_class
       then Inr (slice_to filtered_orbits (number query))
     else Inr (slice_to filtered_neos (number query)))"

text \<open>
  What \<open>list(set(xs))\<close> guarantees about its result: the members of \<open>xs\<close>, each once.
\<close>

definition set_listing :: "('a list \<Rightarrow> 'a list) \<Rightarrow> bool" where
  "set_listing list_set = (\<forall>xs. distinct (list_set xs) \<and> set (list_set xs) = set xs)"

section \<open>Notions of the specification\<close>

text \<open>
  The comparison an operator symbol of \<open>Filter.Operators\<close> stands for, on any linear
  order: on floats by their numeric value, on strings lexicographically.
\<close>

definition compare_as :: "string \<Rightarrow> ('a::linorder) \<Rightarrow> 'a \<Rightarrow> bool" where
  "compare_as opn a b = (if opn = ''='' then a = b else if opn = ''>'' then a > b else a \<ge> b)"

text \<open>
  A valid query plan: a date-search descriptor of mode \<open>equals\<close> with one date or of
  mode \<open>between\<close> with a start and an end date, filter predicates whose field and operator
  are in the fixed tables, a positive result cap and one of the two result shapes.
\<close>

definition valid_filter :: "Filter \<Rightarrow> bool" where
  "valid_filter f = (Options_get (field f) \<noteq> None \<and> Operators_get (operation f) \<noteq> None)"

definition valid_date_search :: "DateSearch \<Rightarrow> bool" where
  "valid_date_search ds =
     (case dvalues ds of
        DateStr d \<Rightarrow> type ds = ''equals''
      | DateList l \<Rightarrow> type ds = ''between'' \<and>
          (case l of [Some s, Some e] \<Rightarrow> True | _ \<Rightarrow> False))"

definition valid_plan :: "Selectors \<Rightarrow> bool" where
  "valid_plan query =
     (valid_date_search (date_search query) \<and> list_all valid_filter (filters query) \<and>
      0 < number query \<and> return_object query \<noteq> None)"

text \<open>
  The date keys that a valid date-search descriptor selects: the key equal to the date
  in \<open>equals\<close> mode, the keys within \<open>[start, end]\<close> in \<open>between\<close> mode.
\<close>

definition date_matches :: "DateSearch \<Rightarrow> string \<Rightarrow> bool" where
  "date_matches ds k =
     (case dvalues ds of
        DateStr d \<Rightarrow> k = d
      | DateList l \<Rightarrow> (case l of [Some s, Some e] \<Rightarrow> s \<le> k \<and> k \<le> e | _ \<Rightarrow> False))"

section \<open>The scenario of the specification\<close>

text \<open>
  One entry \<open>A\<close> with two events, on 2020-01-01 at 500 km and on 2020-01-02 at 50 km,
  indexed under both dates; \<open>str(500.0)\<close> is \<open>'500.0'\<close> and \<open>str(50.0)\<close> is \<open>'50.0'\<close>.
\<close>

definition path_500 :: OrbitPath where
  "path_500 = \<lparr>path_oid = 1, neo_name = ''A'',
                miss_distance_kilometers = PyFloat 500 ''500.0'',
                close_approach_date = Some ''2020-01-01''\<rparr>"

definition path_50 :: OrbitPath where
  "path_50 = \<lparr>path_oid = 2, neo_name = ''A'',
               miss_distance_kilometers = PyFloat 50 ''50.0'',
               close_approach_date = Some ''2020-01-02''\<rparr>"

definition neo_A :: NearEarthObject where
  "neo_A = \<lparr>neo_oid = 0, orbits = [path_500, path_50], neo_id = ''1'', name = ''A'',
             diameter_min_km = PyFloat (1 / 2) ''0.5'',
             is_potentially_hazardous_asteroid = ''False''\<rparr>"

definition db_A :: NEODatabase where
  "db_A = \<lparr>filename = Some ''neo_data.csv'', db_neo_name = [(''A'', neo_A)],
            db_neo_date = [(''2020-01-01'', [neo_A]), (''2020-01-02'', [neo_A])],
            db_next_oid = 3\<rparr>"

text \<open>The plan for \<open>date=2020-01-01\<close>, no filters, \<open>number=5\<close>, entries.\<close>

definition plan_A :: Selectors where
  "plan_A = \<lparr>date_search = \<lparr>type = ''equals'', dvalues = DateStr ''2020-01-01''\<rparr>,
              number = 5, filters = [], return_object = Some NearEarthObject_class\<rparr>"

text \<open>The filter that \<open>build_query\<close> would make of the token \<open>distance:>:100\<close>.\<close>

definition distance_gt_100 :: Filter where
  "distance_gt_100 = \<lparr>field = ''distance'', object = ''OrbitPath'', operation = ''>'',
                       fvalue = PStr ''100''\<rparr>"



text \<open>The first record of the scenario as a CSV row, and \<open>float\<close> on its numeric columns.\<close>

definition row_A :: "string \<rightharpoonup> string" where
  "row_A = [''id'' \<mapsto> ''1'', ''name'' \<mapsto> ''A'', ''estimated_diameter_min_kilometers'' \<mapsto> ''0.5'',
            ''is_potentially_hazardous_asteroid'' \<mapsto> ''False'',
            ''miss_distance_kilometers'' \<mapsto> ''500'', ''close_approach_date'' \<mapsto> ''2020-01-01'']"

definition float_A :: "string \<Rightarrow> pyfloat option" where
  "float_A s =
     (if s = ''500'' then Some (PyFloat 500 ''500.0'')
      else if s = ''0.5'' then Some (PyFloat (1 / 2) ''0.5'')
      else None)"

text \<open>A raw query with an unrecognized \<open>return_object\<close> name and no filter tokens.\<close>

definition query_foo :: Query where
  "query_foo = \<lparr>q_date = Some ''2020-01-01'', q_end_date = None, q_start_date = None,
                 q_number = 5, q_filter = None, q_return_object = ''foo''\<rparr>"

section \<open>Basic facts\<close>

lemma bind_Inl [simp]: "bind (Inl e) k = Inl e"
  by (simp add: bind_def)

lemma bind_Inr [simp]: "bind (Inr x) k = k x"
  by (simp add: bind_def)

lemma bind_eq_Inr: "bind m k = Inr y \<longleftrightarrow> (\<exists>x. m = Inr x \<and> k x = Inr y)"
  by (cases m) simp_all

lemma set_listing_remdups: "set_listing remdups"
  by (simp add: set_listing_def)

lemma set_listing_Nil: "set_listing list_set \<Longrightarrow> list_set [] = []"
  by (metis set_listing_def set_empty)

lemma distinct_singleton: "distinct ys \<Longrightarrow> set ys = {x} \<Longrightarrow> ys = [x]"
proof -
  assume d: "distinct ys" and s: "set ys = {x}"
  then have "length ys = 1" using distinct_card [of ys] by simp
  then obtain y where "ys = [y]" by (cases ys) auto
  with s show ?thesis by simp
qed

lemma set_listing_single: "set_listing list_set \<Longrightarrow> list_set [x] = [x]"
  by (rule distinct_singleton) (simp_all add: set_listing_def)

lemma slice_to_take: "0 \<le> n \<Longrightarrow> slice_to xs n = take (nat n) xs"
  by (simp add: slice_to_def)

section \<open>Filter.apply\<close>

lemma Filter_apply_filter:
  "(\<And>x. x \<in> set xs \<Longrightarrow> Filter_test g f x = Inr (P x)) \<Longrightarrow>
   Filter_apply g f xs = Inr (filter P xs)"
  by (induction xs) simp_all

lemma Filter_apply_Inr:
  "Filter_apply g f xs = Inr ys \<Longrightarrow>
     ys = filter (\<lambda>x. Filter_test g f x = Inr True) xs \<and>
     (\<forall>x \<in> set xs. \<exists>b. Filter_test g f x = Inr b)"
proof (induction xs arbitrary: ys)
  case Nil
  then show ?case by simp
next
  case (Cons x xs)
  from Cons.prems obtain b zs where
    b: "Filter_test g f x = Inr b" and zs: "Filter_apply g f xs = Inr zs"
    and ys: "ys = (if b then x # zs else zs)"
    by (auto simp: bind_eq_Inr)
  from Cons.IH [OF zs] b ys show ?case by auto
qed

lemma Filter_test_path_float:
  assumes "operation f \<in> {''='', ''>'', ''>=''}" "field f = ''distance''" "fvalue f = PFloat b"
  shows "Filter_test getattr_path f p =
           Inr (compare_as (operation f) (num (miss_distance_kilometers p)) (num b))"
  using assms
  by (auto simp: Filter_test_def Options_get_def Operators_get_def getattr_path_def compare_as_def)

lemma Filter_test_neo_float:
  assumes "operation f \<in> {''='', ''>'', ''>=''}" "field f = ''diameter''" "fvalue f = PFloat b"
  shows "Filter_test getattr_neo f n =
           Inr (compare_as (operation f) (num (diameter_min_km n)) (num b))"
  using assms
  by (auto simp: Filter_test_def Options_get_def Operators_get_def getattr_neo_def compare_as_def)

lemma Filter_test_path_str:
  assumes "operation f \<in> {''>'', ''>=''}" "field f = ''distance''" "fvalue f = PStr s"
  shows "Filter_test getattr_path f p =
           Inr (compare_as (operation f) (str_float (miss_distance_kilometers p)) s)"
  using assms
  by (auto simp: Filter_test_def Options_get_def Operators_get_def getattr_path_def compare_as_def)

lemma Filter_test_neo_str:
  assumes "operation f \<in> {''>'', ''>=''}" "field f = ''diameter''" "fvalue f = PStr s"
  shows "Filter_test getattr_neo f n =
           Inr (compare_as (operation f) (str_float (diameter_min_km n)) s)"
  using assms
  by (auto simp: Filter_test_def Options_get_def Operators_get_def getattr_neo_def compare_as_def)

lemma Filter_test_hazard:
  assumes "operation f = ''=''" "field f = ''is_hazardous''" "fvalue f = PStr s"
  shows "Filter_test getattr_neo f n = Inr (is_potentially_hazardous_asteroid n = s)"
  using assms
  by (auto simp: Filter_test_def Options_get_def Operators_get_def getattr_neo_def)

text \<open>
  Claim C1, as amended. \<open>Filter.apply\<close> compares the attribute with the predicate's value
  as they are. When the predicate's value is a float, equals, greater-than and
  greater-or-equal on distance and diameter are the numeric comparisons of the two
  floats. When it is a string, which is what \<open>build_query\<close> always makes it,
  greater-than and greater-or-equal on distance and diameter compare \<open>str(attribute)\<close>
  with the value lexicographically, as strings. Equals on the hazard flag is equality
  of the two strings.
\<close>

theorem Filter_apply_comparisons:
  "(operation f \<in> {''='', ''>'', ''>=''} \<and> field f = ''distance'' \<and> fvalue f = PFloat b \<longrightarrow>
      Filter_apply getattr_path f ps =
        Inr (filter (\<lambda>p. compare_as (operation f) (num (miss_distance_kilometers p)) (num b)) ps)) \<and>
   (operation f \<in> {''='', ''>'', ''>=''} \<and> field f = ''diameter'' \<and> fvalue f = PFloat b \<longrightarrow>
      Filter_apply getattr_neo f ns =
        Inr (filter (\<lambda>n. compare_as (operation f) (num (diameter_min_km n)) (num b)) ns)) \<and>
   (operation f \<in> {''>'', ''>=''} \<and> field f = ''distance'' \<and> fvalue f = PStr s \<longrightarrow>
      Filter_apply getattr_path f ps =
        Inr (filter (\<lambda>p. compare_as (operation f) (str_float (miss_distance_kilometers p)) s) ps)) \<and>
   (operation f \<in> {''>'', ''>=''} \<and> field f = ''diameter'' \<and> fvalue f = PStr s \<longrightarrow>
      Filter_apply getattr_neo f ns =
        Inr (filter (\<lambda>n. compare_as (operation f) (str_float (diameter_min_km n)) s) ns)) \<and>
   (operation f = ''='' \<and> field f = ''is_hazardous'' \<and> fvalue f = PStr s \<longrightarrow>
      Filter_apply getattr_neo f ns =
        Inr (filter (\<lambda>n. is_potentially_hazardous_asteroid n = s) ns))"
  by (intro conjI impI Filter_apply_filter Filter_test_path_float Filter_test_neo_float
        Filter_test_path_str Filter_test_neo_str Filter_test_hazard) simp_all

text \<open>
  One instance for each of the five cases: distance above the float 100.0 keeps the
  500 km event only; diameter at least the float 0.5 keeps \<open>A\<close>; distance above the
  string \<open>'100'\<close> keeps both events; diameter above the string \<open>'0.25'\<close> keeps \<open>A\<close>;
  hazard flag equal to \<open>'True'\<close> drops \<open>A\<close>.
\<close>

theorem Filter_apply_comparisons_witness:
  "Filter_apply getattr_path (distance_gt_100\<lparr>fvalue := PFloat (PyFloat 100 ''100.0'')\<rparr>)
     [path_500, path_50] = Inr [path_500] \<and>
   Filter_apply getattr_neo
     \<lparr>field = ''diameter'', object = ''NearEarthObject'', operation = ''>='',
      fvalue = PFloat (PyFloat (1 / 2) ''0.5'')\<rparr> [neo_A] = Inr [neo_A] \<and>
   Filter_apply getattr_path distance_gt_100 [path_500, path_50] = Inr [path_500, path_50] \<and>
   Filter_apply getattr_neo
     \<lparr>field = ''diameter'', object = ''NearEarthObject'', operation = ''>'',
      fvalue = PStr ''0.25''\<rparr> [neo_A] = Inr [neo_A] \<and>
   Filter_apply getattr_neo
     \<lparr>field = ''is_hazardous'', object = ''NearEarthObject'', operation = ''='',
      fvalue = PStr ''True''\<rparr> [neo_A] = Inr []"
proof (intro conjI)
  show "Filter_apply getattr_path (distance_gt_100\<lparr>fvalue := PFloat (PyFloat 100 ''100.0'')\<rparr>)
     [path_500, path_50] = Inr [path_500]"
    using Filter_apply_comparisons
      [of "distance_gt_100\<lparr>fvalue := PFloat (PyFloat 100 ''100.0'')\<rparr>" "PyFloat 100 ''100.0''"
          "[path_500, path_50]"]
    by (simp add: distance_gt_100_def path_500_def path_50_def compare_as_def)
  show "Filter_apply getattr_neo
     \<lparr>field = ''diameter'', object = ''NearEarthObject'', operation = ''>='',
      fvalue = PFloat (PyFloat (1 / 2) ''0.5'')\<rparr> [neo_A] = Inr [neo_A]"
    using Filter_apply_comparisons
      [of "\<lparr>field = ''diameter'', object = ''NearEarthObject'', operation = ''>='',
      fvalue = PFloat (PyFloat (1 / 2) ''0.5'')\<rparr>" "PyFloat (1 / 2) ''0.5''" _ "[neo_A]"]
    by (simp add: neo_A_def compare_as_def)
  show "Filter_apply getattr_path distance_gt_100 [path_500, path_50] = Inr [path_500, path_50]"
    using Filter_apply_comparisons [of distance_gt_100 _ "[path_500, path_50]" _ "''100''"]
    by (simp add: distance_gt_100_def path_500_def path_50_def compare_as_def)
  show "Filter_apply getattr_neo
     \<lparr>field = ''diameter'', object = ''NearEarthObject'', operation = ''>'',
      fvalue = PStr ''0.25''\<rparr> [neo_A] = Inr [neo_A]"
    using Filter_apply_comparisons
      [of "\<lparr>field = ''diameter'', object = ''NearEarthObject'', operation = ''>'',
      fvalue = PStr ''0.25''\<rparr>" _ _ "[neo_A]" "''0.25''"]
    by (simp add: neo_A_def compare_as_def)
  show "Filter_apply getattr_neo
     \<lparr>field = ''is_hazardous'', object = ''NearEarthObject'', operation = ''='',
      fvalue = PStr ''True''\<rparr> [neo_A] = Inr []"
    using Filter_apply_comparisons
      [of "\<lparr>field = ''is_hazardous'', object = ''NearEarthObject'', operation = ''='',
      fvalue = PStr ''True''\<rparr>" _ _ "[neo_A]" "''True''"]
    by (simp add: neo_A_def)
qed

text \<open>
  Claim C1 as stated fails. The filter of the token \<open>distance:>:100\<close> keeps the event
  at 50 km, because \<open>'50.0' > '100'\<close> as strings although 50 is not above 100; and the
  filter of the token \<open>diameter:=:0.5\<close> drops the entry whose diameter is 0.5, because a
  float never equals a string.
\<close>

theorem Filter_apply_string_order_counterexample:
  "Filter_apply getattr_path distance_gt_100 [path_50] = Inr [path_50] \<and>
   \<not> num (miss_distance_kilometers path_50) > 100 \<and>
   Filter_apply getattr_neo
     \<lparr>field = ''diameter'', object = ''NearEarthObject'', operation = ''='',
      fvalue = PStr ''0.5''\<rparr> [neo_A] = Inr [] \<and>
   num (diameter_min_km neo_A) = 0.5"
  by (simp add: distance_gt_100_def path_50_def neo_A_def Filter_test_def Options_get_def
        Operators_get_def getattr_path_def getattr_neo_def)

text \<open>
  Claim C7. Whenever \<open>Filter.apply\<close> returns a list, that list is a subsequence of the
  input: it keeps the input's relative order, holds only elements of the input, and is
  no longer than the input.
\<close>

theorem Filter_apply_subseq:
  "Filter_apply g f xs = Inr ys \<Longrightarrow>
   subseq ys xs \<and> set ys \<subseteq> set xs \<and> length ys \<le> length xs"
  by (auto dest!: Filter_apply_Inr)

theorem Filter_apply_subseq_witness:
  "Filter_apply getattr_path (distance_gt_100\<lparr>fvalue := PFloat (PyFloat 100 ''100.0'')\<rparr>)
     [path_500, path_50] = Inr [path_500] \<and>
   subseq [path_500] [path_500, path_50] \<and>
   set [path_500] \<subseteq> set [path_500, path_50] \<and>
   length [path_500] \<le> length [path_500, path_50]"
proof -
  have h: "Filter_apply getattr_path (distance_gt_100\<lparr>fvalue := PFloat (PyFloat 100 ''100.0'')\<rparr>)
     [path_500, path_50] = Inr [path_500]"
    by (simp add: distance_gt_100_def path_50_def path_500_def Filter_test_def Options_get_def
        Operators_get_def getattr_path_def)
  from Filter_apply_subseq [OF h] h show ?thesis by simp
qed

text \<open>
  Claim C8. Applying a filter predicate to its own result changes nothing: applying it
  twice gives what applying it once gives (the same list, or the same exception).
\<close>

theorem Filter_apply_idempotent:
  "bind (Filter_apply g f xs) (Filter_apply g f) = Filter_apply g f xs"
proof (cases "Filter_apply g f xs")
  case (Inl e)
  then show ?thesis by simp
next
  case (Inr ys)
  from Filter_apply_Inr [OF Inr]
  have "\<And>x. x \<in> set ys \<Longrightarrow> Filter_test g f x = Inr ((\<lambda>_. True) x)" by auto
  then have "Filter_apply g f ys = Inr (filter (\<lambda>_. True) ys)" by (rule Filter_apply_filter)
  with Inr show ?thesis by simp
qed

section \<open>Date selection\<close>

lemma date_between_Some:
  "date_between key (Some s) (Some e) = Inr (s \<le> key \<and> key \<le> e)"
  by (simp add: date_between_def)

lemma return_date_search_between_Some:
  "return_date_search_between d (Some s) (Some e) =
     Inr (concat (map snd (filter (\<lambda>(k, v). s \<le> k \<and> k \<le> e) d)))"
proof (induction d)
  case Nil
  show ?case by simp
next
  case (Cons kv d)
  obtain key val where kv: "kv = (key, val)" by (cases kv)
  show ?case by (simp add: kv Cons.IH date_between_Some)
qed

lemma return_date_search_equal_filter:
  "return_date_search_equal d (DateStr s) = concat (map snd (filter (\<lambda>(k, v). k = s) d))"
  by (induction d) auto

lemma date_selection_filters [simp]:
  "date_selection self (query\<lparr>filters := fs\<rparr>) = date_selection self query"
  by (simp add: date_selection_def cong: if_cong)

text \<open>
  Claim C5. In \<open>between\<close> mode the date selection returns the entries registered under
  the keys \<open>k\<close> of the date index with \<open>start \<le> k \<le> end\<close> in the lexicographic order of
  strings, both ends included, in the order of the index, and nothing else; an entry
  registered under several keys of the range occurs once for each.
\<close>

theorem return_date_search_between_inclusive:
  "return_date_search_between d (Some start_date) (Some end_date) =
     Inr (concat (map snd (filter (\<lambda>(k, v). start_date \<le> k \<and> k \<le> end_date) d)))"
  by (rule return_date_search_between_Some)

section \<open>The filter loop of get_objects\<close>




lemma filter_loop_keeps:
  "list_all (\<lambda>f. field f \<noteq> ''distance'') gs \<Longrightarrow>
   filter_loop gs d neos = Inr (d', neos') \<Longrightarrow> d' = d"
proof (induction gs arbitrary: neos)
  case Nil
  then show ?case by simp
next
  case (Cons g gs)
  then show ?case by (auto simp: bind_eq_Inr)
qed




section \<open>Valid plans\<close>

lemma Filter_test_neo_valid:
  assumes "valid_filter f" "field f \<noteq> ''distance''"
  shows "\<exists>b. Filter_test getattr_neo f n = Inr b"
proof (cases "fvalue f")
  case (PFloat x)
  with assms show ?thesis
    by (auto simp: valid_filter_def Filter_test_def Options_get_def Operators_get_def
        getattr_neo_def split: if_splits)
next
  case (PStr x)
  with assms show ?thesis
    by (auto simp: valid_filter_def Filter_test_def Options_get_def Operators_get_def
        getattr_neo_def split: if_splits)
qed

lemma Filter_test_path_valid:
  assumes "valid_filter f" "field f = ''distance''"
  shows "\<exists>b. Filter_test getattr_path f p = Inr b"
proof (cases "fvalue f")
  case (PFloat x)
  with assms show ?thesis
    by (auto simp: valid_filter_def Filter_test_def Options_get_def Operators_get_def
        getattr_path_def split: if_splits)
next
  case (PStr x)
  with assms show ?thesis
    by (auto simp: valid_filter_def Filter_test_def Options_get_def Operators_get_def
        getattr_path_def split: if_splits)
qed

lemma Filter_apply_total:
  "(\<And>x. x \<in> set xs \<Longrightarrow> \<exists>b. Filter_test g f x = Inr b) \<Longrightarrow>
   \<exists>ys. Filter_apply g f xs = Inr ys"
proof (induction xs)
  case Nil
  show ?case by simp
next
  case (Cons x xs)
  from Cons.prems [of x] obtain b where b: "Filter_test g f x = Inr b" by auto
  from Cons.IH Cons.prems obtain ys where "Filter_apply g f xs = Inr ys" by auto
  with b show ?case by simp
qed

lemma filter_loop_valid:
  assumes "list_all valid_filter fs"
    and "case d of None \<Rightarrow> True | Some f \<Rightarrow> valid_filter f \<and> field f = ''distance''"
  shows "\<exists>d' neos'. filter_loop fs d neos = Inr (d', neos') \<and>
           (case d' of None \<Rightarrow> True | Some f \<Rightarrow> valid_filter f \<and> field f = ''distance'')"
  using assms
proof (induction fs arbitrary: d neos)
  case Nil
  then show ?case by simp
next
  case (Cons f fs)
  show ?case
  proof (cases "field f = ''distance''")
    case True
    with Cons.prems have "case Some f of None \<Rightarrow> True | Some f \<Rightarrow> valid_filter f \<and> field f = ''distance''"
      by simp
    with Cons.prems Cons.IH [of "Some f" neos] True show ?thesis by simp
  next
    case False
    with Cons.prems have "\<And>x. \<exists>b. Filter_test getattr_neo f x = Inr b"
      by (simp add: Filter_test_neo_valid)
    then obtain ns where "Filter_apply getattr_neo f neos = Inr ns"
      using Filter_apply_total [of neos getattr_neo f] by blast
    with Cons.prems Cons.IH [of d ns] False show ?thesis by simp
  qed
qed

lemma date_selection_matches:
  assumes "valid_date_search (date_search query)"
  shows "date_selection self query =
           Inr (concat (map snd (filter (\<lambda>(k, v). date_matches (date_search query) k) (neo_date self))))"
proof (cases "dvalues (date_search query)")
  case (DateStr d)
  with assms show ?thesis
    by (simp add: valid_date_search_def date_selection_def date_matches_def
        return_date_search_equal_filter)
next
  case (DateList l)
  with assms obtain s e where l: "l = [Some s, Some e]" and t: "type (date_search query) = ''between''"
    by (auto simp: valid_date_search_def split: list.splits option.splits)
  show ?thesis
    by (simp add: date_selection_def DateList l t date_getitem_def list_getitem_def
        return_date_search_between_Some date_matches_def)
qed

lemma get_objects_all_valid:
  assumes "valid_plan query"
  shows "\<exists>ns ps. get_objects_all list_set self query = Inr (ns, ps)"
proof -
  from assms obtain neos where ds: "date_selection self query = Inr neos"
    using date_selection_matches [of query self] by (auto simp: valid_plan_def)
  from assms obtain d' neos' where fl: "filter_loop (filters query) None neos = Inr (d', neos')"
    and d': "case d' of None \<Rightarrow> True | Some f \<Rightarrow> valid_filter f \<and> field f = ''distance''"
    using filter_loop_valid [of "filters query" None neos] by (auto simp: valid_plan_def)
  show ?thesis
  proof (cases d')
    case None
    with ds fl show ?thesis by (simp add: get_objects_all_def)
  next
    case (Some df)
    with d' have "\<And>x. \<exists>b. Filter_test getattr_path df x = Inr b"
      by (simp add: Filter_test_path_valid)
    then obtain fo where "Filter_apply getattr_path df (return_orbit_paths_from_neos neos') = Inr fo"
      using Filter_apply_total [of "return_orbit_paths_from_neos neos'" getattr_path df] by blast
    with ds fl Some show ?thesis by (simp add: get_objects_all_def)
  qed
qed

lemma filter_loop_empty: "\<exists>d'. filter_loop fs d [] = Inr (d', [])"
  by (induction fs arbitrary: d) simp_all

lemma get_objects_empty:
  assumes "set_listing list_set" "date_selection self query = Inr []"
  shows "get_objects list_set self query = Inr []"
proof -
  obtain d' where fl: "filter_loop (filters query) None [] = Inr (d', [])"
    using filter_loop_empty by blast
  have "get_objects_all list_set self query = Inr ([], [])"
    using assms fl
    by (cases d') (simp_all add: get_objects_all_def set_listing_Nil return_neo_from_orbit_path_def)
  then show ?thesis by (simp add: get_objects_def slice_to_def)
qed

lemma get_objects_no_distance:
  assumes "list_all (\<lambda>f. field f \<noteq> ''distance'') (filters query)"
    and "return_object query \<noteq> Some OrbitPath_class"
  shows "get_objects list_set self query =
     bind (date_selection self query) (\<lambda>neos.
     bind (filter_loop (filters query) None neos) (\<lambda>(d, neos').
     Inr (slice_to (list_set (map Neo neos')) (number query))))"
proof (cases "date_selection self query")
  case (Inl e)
  then show ?thesis by (simp add: get_objects_def get_objects_all_def)
next
  case (Inr neos)
  show ?thesis
  proof (cases "filter_loop (filters query) None neos")
    case (Inl e)
    with Inr show ?thesis by (simp add: get_objects_def get_objects_all_def)
  next
    case fl: (Inr r)
    obtain d neos' where r: "r = (d, neos')" by (cases r)
    from filter_loop_keeps [OF assms(1)] fl r have "d = None" by simp
    with Inr fl r assms(2) show ?thesis by (simp add: get_objects_def get_objects_all_def)
  qed
qed

section \<open>get_objects\<close>

text \<open>The deduplicated pair is the pair of lines 183 to 207 with \<open>list(set(..))\<close> applied.\<close>

lemma get_objects_all_filtered:
  "get_objects_all list_set self query =
     bind (get_objects_filtered self query) (\<lambda>(filtered_neos, filtered_orbits).
     Inr (list_set filtered_neos, list_set filtered_orbits))"
proof (cases "date_selection self query")
  case (Inl e)
  then show ?thesis by (simp add: get_objects_all_def get_objects_filtered_def)
next
  case (Inr neos)
  show ?thesis
  proof (cases "filter_loop (filters query) None neos")
    case (Inl e)
    with Inr show ?thesis by (simp add: get_objects_all_def get_objects_filtered_def)
  next
    case fl: (Inr r)
    obtain d neos' where r: "r = (d, neos')" by (cases r)
    show ?thesis
    proof (cases d)
      case None
      with Inr fl r show ?thesis by (simp add: get_objects_all_def get_objects_filtered_def)
    next
      case (Some df)
      with Inr fl r show ?thesis
        by (cases "Filter_apply getattr_path df (return_orbit_paths_from_neos neos')")
           (simp_all add: get_objects_all_def get_objects_filtered_def)
    qed
  qed
qed

text \<open>
  Claim C4. For every valid query plan and every index, \<open>get_objects\<close> returns a list
  that is no longer than the plan's result cap. The available results are the
  deduplication of the list of the selected shape that the filtering stages leave: they
  are pairwise distinct, they are exactly the members of that list, and their number is
  the number of its distinct members. The length of the returned list is the minimum of
  the cap and that number, and the returned list is a prefix of the available results:
  when the cap is not below the available count all of them are returned, nothing is
  padded and no exception is raised.
\<close>

theorem get_objects_cap:
  assumes "valid_plan query" and "set_listing list_set"
  shows "\<exists>filtered_neos filtered_orbits selected available result.
           get_objects_filtered self query = Inr (filtered_neos, filtered_orbits) \<and>
           selected = (if return_object query = Some OrbitPath_class
                       then filtered_orbits else filtered_neos) \<and>
           available = list_set selected \<and>
           distinct available \<and> set available = set selected \<and>
           length available = card (set selected) \<and>
           get_objects list_set self query = Inr result \<and>
           int (length result) \<le> number query \<and>
           length result = min (nat (number query)) (length available) \<and>
           result = take (length result) available \<and>
           (length available \<le> nat (number query) \<longrightarrow> result = available)"
proof -
  from get_objects_all_valid [OF assms(1), of list_set self] obtain ns ps where
    all: "get_objects_all list_set self query = Inr (ns, ps)" by blast
  then obtain rn rp where raw: "get_objects_filtered self query = Inr (rn, rp)"
    and ns: "ns = list_set rn" and ps: "ps = list_set rp"
    by (auto simp: get_objects_all_filtered bind_eq_Inr)
  from assms(1) have n: "0 \<le> number query" by (simp add: valid_plan_def)
  define selected where "selected = (if return_object query = Some OrbitPath_class then rp else rn)"
  define available where "available = list_set selected"
  define result where "result = take (nat (number query)) available"
  have av: "available = (if return_object query = Some OrbitPath_class then ps else ns)"
    by (simp add: available_def selected_def ns ps)
  have d: "distinct available" and s: "set available = set selected"
    using assms(2) by (simp_all add: available_def set_listing_def)
  have c: "length available = card (set selected)"
    using d s distinct_card [of available] by simp
  have g: "get_objects list_set self query = Inr result"
    using all n by (simp add: get_objects_def slice_to_take result_def av)
  have l1: "int (length result) \<le> number query" using n by (simp add: result_def)
  have l2: "length result = min (nat (number query)) (length available)"
    by (simp add: result_def min.commute)
  have p: "result = take (length result) available"
    by (cases "nat (number query) \<le> length available") (simp_all add: result_def)
  have a: "length available \<le> nat (number query) \<longrightarrow> result = available"
    by (simp add: result_def)
  from raw selected_def available_def d s c g l1 l2 p a show ?thesis by blast
qed

text \<open>
  In the scenario, with cap 1 and the event shape, two events are available and the
  first one is returned; with the range 2020-01-01 to 2020-01-02, cap 5 and the entry
  shape, the entry \<open>A\<close> is selected twice, is available once and is returned once.
\<close>

theorem get_objects_cap_witness:
  "valid_plan (plan_A\<lparr>number := 1, return_object := Some OrbitPath_class\<rparr>) \<and>
   set_listing (remdups :: obj list \<Rightarrow> obj list) \<and>
   get_objects_filtered (NEOSearcher_init db_A)
     (plan_A\<lparr>number := 1, return_object := Some OrbitPath_class\<rparr>) =
       Inr ([Neo neo_A], [Path path_500, Path path_50]) \<and>
   get_objects remdups (NEOSearcher_init db_A)
     (plan_A\<lparr>number := 1, return_object := Some OrbitPath_class\<rparr>) = Inr [Path path_500] \<and>
   valid_plan (plan_A\<lparr>date_search :=
      \<lparr>type = ''between'', dvalues = DateList [Some ''2020-01-01'', Some ''2020-01-02'']\<rparr>\<rparr>) \<and>
   get_objects_filtered (NEOSearcher_init db_A) (plan_A\<lparr>date_search :=
      \<lparr>type = ''between'', dvalues = DateList [Some ''2020-01-01'', Some ''2020-01-02'']\<rparr>\<rparr>) =
       Inr ([Neo neo_A, Neo neo_A],
            [Path path_500, Path path_50, Path path_500, Path path_50]) \<and>
   get_objects remdups (NEOSearcher_init db_A) (plan_A\<lparr>date_search :=
      \<lparr>type = ''between'', dvalues = DateList [Some ''2020-01-01'', Some ''2020-01-02'']\<rparr>\<rparr>) =
       Inr [Neo neo_A]"
proof -
  let ?S = "NEOSearcher_init db_A"
  let ?P = "plan_A\<lparr>number := 1, return_object := Some OrbitPath_class\<rparr>"
  let ?Q = "plan_A\<lparr>date_search :=
      \<lparr>type = ''between'', dvalues = DateList [Some ''2020-01-01'', Some ''2020-01-02'']\<rparr>\<rparr>"
  have vp: "valid_plan ?P"
    by (simp add: valid_plan_def plan_A_def valid_date_search_def)
  have vq: "valid_plan ?Q"
    by (simp add: valid_plan_def plan_A_def valid_date_search_def)
  have fp: "get_objects_filtered ?S ?P = Inr ([Neo neo_A], [Path path_500, Path path_50])"
    by (simp add: get_objects_filtered_def date_selection_def plan_A_def db_A_def
        NEOSearcher_init_def neo_A_def)
  have fq: "get_objects_filtered ?S ?Q =
       Inr ([Neo neo_A, Neo neo_A], [Path path_500, Path path_50, Path path_500, Path path_50])"
    by (simp add: get_objects_filtered_def date_selection_def plan_A_def db_A_def
        NEOSearcher_init_def neo_A_def date_getitem_def list_getitem_def date_between_def)
  have ne: "path_500 \<noteq> path_50" by (simp add: path_500_def path_50_def)
  from get_objects_cap [OF vp set_listing_remdups, of ?S] fp ne
  have gp: "get_objects remdups ?S ?P = Inr [Path path_500]"
    by (auto simp: plan_A_def)
  from get_objects_cap [OF vq set_listing_remdups, of ?S] fq
  have gq: "get_objects remdups ?S ?Q = Inr [Neo neo_A]"
    by (auto simp: plan_A_def)
  from vp vq fp fq gp gq set_listing_remdups show ?thesis by blast
qed

text \<open>
  Claim C9. For every valid query plan and every index, \<open>get_objects\<close> raises no
  exception and returns a list; when no key of the date index matches the date or the
  date range of the plan, the list is empty.
\<close>

theorem get_objects_returns:
  assumes "valid_plan query"
  shows "(\<exists>result. get_objects list_set self query = Inr result) \<and>
         (set_listing list_set \<and>
          (\<forall>(k, v) \<in> set (neo_date self). \<not> date_matches (date_search query) k) \<longrightarrow>
            get_objects list_set self query = Inr [])"
proof (intro conjI impI)
  from get_objects_all_valid [OF assms] obtain ns ps where
    "get_objects_all list_set self query = Inr (ns, ps)" by blast
  then show "\<exists>result. get_objects list_set self query = Inr result"
    by (simp add: get_objects_def)
next
  assume h: "set_listing list_set \<and>
          (\<forall>(k, v) \<in> set (neo_date self). \<not> date_matches (date_search query) k)"
  then have "filter (\<lambda>(k, v). date_matches (date_search query) k) (neo_date self) = []"
    by (auto simp: filter_empty_conv)
  with assms have "date_selection self query = Inr []"
    by (simp add: date_selection_matches valid_plan_def)
  with h show "get_objects list_set self query = Inr []"
    by (simp add: get_objects_empty)
qed

text \<open>In the scenario, the date 2021-05-05 matches no key and the result is empty.\<close>

theorem get_objects_returns_witness:
  "valid_plan (plan_A\<lparr>date_search := \<lparr>type = ''equals'', dvalues = DateStr ''2021-05-05''\<rparr>\<rparr>) \<and>
   set_listing (remdups :: obj list \<Rightarrow> obj list) \<and>
   get_objects remdups (NEOSearcher_init db_A)
     (plan_A\<lparr>date_search := \<lparr>type = ''equals'', dvalues = DateStr ''2021-05-05''\<rparr>\<rparr>) = Inr []"
proof -
  let ?P = "plan_A\<lparr>date_search := \<lparr>type = ''equals'', dvalues = DateStr ''2021-05-05''\<rparr>\<rparr>"
  have v: "valid_plan ?P"
    by (simp add: valid_plan_def plan_A_def valid_date_search_def)
  have m: "\<forall>(k, v) \<in> set (neo_date (NEOSearcher_init db_A)). \<not> date_matches (date_search ?P) k"
    by (simp add: NEOSearcher_init_def db_A_def date_matches_def)
  from get_objects_returns [OF v, of remdups "NEOSearcher_init db_A"] m set_listing_remdups v
  show ?thesis by blast
qed

text \<open>
  Claim C6. In the scenario (entry \<open>A\<close> with events on 2020-01-01 at 500 km and on
  2020-01-02 at 50 km), the plan with exact date 2020-01-01, no filters, cap 5 and the
  entry shape returns the one-element list \<open>[A]\<close>. In general, when no filter is on the
  distance field, the entry-shaped result is the deduplicated and truncated list of the
  entries that the date selection and the other filters leave; the events of the
  expansion stage do not enter it.
\<close>

theorem get_objects_scenario_entry:
  assumes "set_listing list_set"
  shows "get_objects list_set (NEOSearcher_init db_A) plan_A = Inr [Neo neo_A] \<and>
         (list_all (\<lambda>f. field f \<noteq> ''distance'') (filters query) \<and>
          return_object query \<noteq> Some OrbitPath_class \<longrightarrow>
          get_objects list_set self query =
            bind (date_selection self query) (\<lambda>neos.
            bind (filter_loop (filters query) None neos) (\<lambda>(d, neos').
            Inr (slice_to (list_set (map Neo neos')) (number query)))))"
proof (intro conjI impI)
  have "get_objects list_set (NEOSearcher_init db_A) plan_A =
          Inr (slice_to (list_set [Neo neo_A]) 5)"
    by (simp add: get_objects_def get_objects_all_def date_selection_def plan_A_def db_A_def
        NEOSearcher_init_def)
  then show "get_objects list_set (NEOSearcher_init db_A) plan_A = Inr [Neo neo_A]"
    by (simp add: set_listing_single [OF assms] slice_to_def)
next
  assume "list_all (\<lambda>f. field f \<noteq> ''distance'') (filters query) \<and>
          return_object query \<noteq> Some OrbitPath_class"
  then show "get_objects list_set self query =
            bind (date_selection self query) (\<lambda>neos.
            bind (filter_loop (filters query) None neos) (\<lambda>(d, neos').
            Inr (slice_to (list_set (map Neo neos')) (number query))))"
    by (simp add: get_objects_no_distance)
qed

theorem get_objects_scenario_entry_witness:
  "set_listing (remdups :: obj list \<Rightarrow> obj list) \<and>
   list_all (\<lambda>f. field f \<noteq> ''distance'') (filters plan_A) \<and>
   return_object plan_A \<noteq> Some OrbitPath_class \<and>
   get_objects remdups (NEOSearcher_init db_A) plan_A = Inr [Neo neo_A]"
proof -
  have "list_all (\<lambda>f. field f \<noteq> ''distance'') (filters plan_A) \<and>
        return_object plan_A \<noteq> Some OrbitPath_class"
    by (simp add: plan_A_def)
  with get_objects_scenario_entry [OF set_listing_remdups] set_listing_remdups
  show ?thesis by blast
qed

section \<open>Query.build_query\<close>

lemma split_nonempty: "split c s \<noteq> []"
  by (induction s) (auto split: list.splits)

lemma list_getitem_0: "xs \<noteq> [] \<Longrightarrow> list_getitem xs 0 = Inr (hd xs)"
  by (cases xs) (simp_all add: list_getitem_def)

lemma NearEarthObject_init_empty: "NearEarthObject_init to_float oid Map.empty = Inl (KeyError ''id'')"
  by (simp add: NearEarthObject_init_def kwargs_getitem_def)

lemma create_filter_options_Cons:
  "create_filter_options to_float d (x # xs) = Inl (KeyError ''id'')"
  by (simp add: list_getitem_0 split_nonempty NearEarthObject_init_empty)

lemma build_query_cases:
  "build_query to_float self =
     (if q_filter self = None \<or> q_filter self = Some []
      then Inr \<lparr>date_search =
                  (if truthy_str (q_date self)
                   then \<lparr>type = ''equals'', dvalues = DateStr (the (q_date self))\<rparr>
                   else \<lparr>type = ''between'',
                         dvalues = DateList [q_start_date self, q_end_date self]\<rparr>),
                number = q_number self, filters = [],
                return_object = ReturnObjects_get (q_return_object self)\<rparr>
      else Inl (KeyError ''id''))"
proof (cases "q_filter self")
  case None
  then show ?thesis by (simp add: build_query_def)
next
  case (Some fl)
  then show ?thesis
    by (cases fl)
       (simp_all add: build_query_def create_filter_options_Cons del: create_filter_options.simps)
qed

text \<open>
  Claim C2, as amended. \<open>Query.build_query\<close> never fails with \<open>UnsupportedFeature\<close>. For
  a raw query without filter tokens it always produces a plan, with an empty filter list
  and with the class that \<open>return_object\<close> names as result shape; the shape is absent
  (\<open>None\<close>) when the name is not one of the two recognized names.
\<close>

theorem build_query_no_UnsupportedFeature:
  "build_query to_float self \<noteq> Inl UnsupportedFeature \<and>
   (q_filter self = None \<or> q_filter self = Some [] \<longrightarrow>
      (\<exists>plan. build_query to_float self = Inr plan \<and> filters plan = [] \<and>
              return_object plan = ReturnObjects_get (q_return_object self))) \<and>
   (q_return_object self \<noteq> ''NEO'' \<and> q_return_object self \<noteq> ''Path'' \<longrightarrow>
      ReturnObjects_get (q_return_object self) = None)"
  by (simp add: build_query_cases ReturnObjects_get_def)

theorem build_query_no_UnsupportedFeature_witness:
  "q_filter query_foo = None \<and> q_return_object query_foo \<noteq> ''NEO'' \<and>
   q_return_object query_foo \<noteq> ''Path'' \<and>
   (\<exists>plan. build_query float_A query_foo = Inr plan \<and> filters plan = [] \<and>
           return_object plan = None)"
proof -
  have h: "q_filter query_foo = None \<and> q_return_object query_foo \<noteq> ''NEO'' \<and>
   q_return_object query_foo \<noteq> ''Path''"
    by (simp add: query_foo_def)
  with build_query_no_UnsupportedFeature [of float_A query_foo] show ?thesis
    by auto
qed

text \<open>
  Claim C2 as stated fails. The raw query with \<open>return_object\<close> \<open>foo\<close> and no filter
  yields a plan whose result shape is \<open>None\<close>; the raw query with the filter token
  \<open>foo:=:1\<close> fails with \<open>KeyError\<close>, raised by \<open>NearEarthObject()\<close>, and not with
  \<open>UnsupportedFeature\<close>.
\<close>

theorem build_query_unrecognized_counterexample:
  "build_query float_A query_foo =
     Inr \<lparr>date_search = \<lparr>type = ''equals'', dvalues = DateStr ''2020-01-01''\<rparr>,
          number = 5, filters = [], return_object = None\<rparr> \<and>
   build_query float_A (query_foo\<lparr>q_filter := Some [''foo:=:1''], q_return_object := ''NEO''\<rparr>) =
     Inl (KeyError ''id'')"
  by (simp add: build_query_def query_foo_def truthy_str_def ReturnObjects_get_def
      list_getitem_def NearEarthObject_init_def kwargs_getitem_def)

section \<open>NEODatabase.load_data\<close>

lemma load_row_raises: "\<exists>e. load_row to_float d row = Inl e"
  by (cases "OrbitPath_init to_float (db_next_oid d) row")
     (simp_all add: load_row_def dict_getitem_list_def)

text \<open>
  Claim C3 asks for one entry per distinct name of the loaded records. The code does not
  get there: on the file whose only row is the first record of the scenario,
  \<open>load_data\<close> raises \<open>TypeError\<close> at \<open>self.neo_name[['name']]\<close>, and on every
  non-empty sequence of rows the loop raises at its first row, so no index is built
  while the records hold one distinct name.
\<close>

theorem load_data_raises:
  "load_data float_A (\<lambda>f. Inr [row_A]) (NEODatabase_init (Some ''neo_data.csv'')) None =
     Inl TypeError \<and>
   (\<forall>to_float d row data. \<exists>e. load_rows to_float d (row # data) = Inl e)"
proof
  show "load_data float_A (\<lambda>f. Inr [row_A]) (NEODatabase_init (Some ''neo_data.csv'')) None =
     Inl TypeError"
    by (simp add: load_data_def truthy_str_def NEODatabase_init_def load_row_def
        OrbitPath_init_def kwargs_getitem_def row_A_def float_of_def float_A_def
        dict_getitem_list_def)
  show "\<forall>to_float d row data. \<exists>e. load_rows to_float d (row # data) = Inl e"
  proof (intro allI)
    fix to_float d row data
    from load_row_raises [of to_float d row] obtain e where "load_row to_float d row = Inl e" ..
    then show "\<exists>e. load_rows to_float d (row # data) = Inl e" by simp
  qed
qed

end
